theory Spec2Isabelle
  imports Main
begin

section \<open>JavaScript values\<close>

text \<open>
  The configuration is a tree of JavaScript values: strings, booleans, arrays, object
  literals and one function. An object literal is kept as the list of its
  \<open>key: value\<close> entries in source order; a numeric key such as \<open>2:\<close> is the
  string \<open>2\<close>, as it is in JavaScript. The type parameter is the type of the function
  values a tree may hold.
\<close>

datatype 'f jsval =
    JUndefined
  | JBool bool
  | JStr string
  | JArr "'f jsval list"
  | JObj "(string \<times> 'f jsval) list"
  | JFn 'f

text \<open>
  Property access. \<open>Key k\<close> is \<open>v.k\<close> (or \<open>v["k"]\<close>) on an object,
  \<open>Elem i\<close> is \<open>v[i]\<close> on an array. The result is \<open>None\<close> where the value
  has no such own property.
\<close>

datatype step = Key string | Elem nat

fun get_step :: "step \<Rightarrow> 'f jsval \<Rightarrow> 'f jsval option" where
  "get_step (Key k) (JObj kvs) = map_of kvs k"
| "get_step (Elem i) (JArr xs) = (if i < length xs then Some (xs ! i) else None)"
| "get_step _ _ = None"

fun get_path :: "step list \<Rightarrow> 'f jsval \<Rightarrow> 'f jsval option" where
  "get_path [] v = Some v"
| "get_path (s # ss) v = (case get_step s v of None \<Rightarrow> None | Some w \<Rightarrow> get_path ss w)"

text \<open>
  The own property names of an object, in the order of the literal. (\<open>Object.keys\<close>
  lists integer-like names first; the objects whose names are listed below have none.)
\<close>

fun keys_of :: "'f jsval \<Rightarrow> string list" where
  "keys_of (JObj kvs) = map fst kvs"
| "keys_of _ = []"

section \<open>tailwind/theme.js\<close>

definition fontFamily :: "'f jsval" where
  "fontFamily = JObj [
     (''primary'', JStr ''Inter''),
     (''secondary'', JStr ''Gilroy''),
     (''curgloria'', JStr ''Gloria Hallelujah'')]"

definition fontSize :: "'f jsval" where
  "fontSize = JObj [
     (''small'', JArr [JStr ''8px'', JStr ''12px'']),
     (''overline'', JArr [JStr ''10px'',
        JObj [(''lineHeight'', JStr ''16px''),
              (''letterSpacing'', JStr ''0.04em''),
              (''textTransform'', JStr ''uppercase'')]]),
     (''captionsm'', JArr [JStr ''10px'', JStr ''12px'']),
     (''caption2'', JArr [JStr ''10px'', JStr ''16px'']),
     (''caption18'', JArr [JStr ''10px'', JStr ''20px'']),
     (''caption15'', JArr [JStr ''12px'', JStr ''14px'']),
     (''caption1'', JArr [JStr ''12px'', JStr ''20px'']),
     (''caption3'', JArr [JStr ''11px'', JStr ''16px'']),
     (''body'', JArr [JStr ''14px'', JStr ''24px'']),
     (''subheader'', JArr [JStr ''16px'', JStr ''24px'']),
     (''subheader2'', JArr [JStr ''18px'', JStr ''20px'']),
     (''title'', JArr [JStr ''20px'', JStr ''28px'']),
     (''heading2'', JArr [JStr ''24px'', JStr ''36px'']),
     (''heading1'', JArr [JStr ''28px'', JStr ''40px'']),
     (''display6'', JArr [JStr ''30px'', JStr ''35px'']),
     (''display5'', JArr [JStr ''36px'', JStr ''48px'']),
     (''display4'', JArr [JStr ''48px'', JStr ''56px'']),
     (''display3'', JArr [JStr ''56px'', JStr ''64px'']),
     (''display2'', JArr [JStr ''64px'', JStr ''72px'']),
     (''display1'', JArr [JStr ''80px'', JStr ''88px''])]"

definition borderRadius :: "'f jsval" where
  "borderRadius = JObj [
     (''2'', JStr ''2px''),
     (''4'', JStr ''4px''),
     (''6'', JStr ''6px''),
     (''8'', JStr ''8px''),
     (''12'', JStr ''12px''),
     (''16'', JStr ''16px''),
     (''20'', JStr ''20px''),
     (''24'', JStr ''24px'')]"

definition borderWidth :: "'f jsval" where
  "borderWidth = JObj [
     (''DEFAULT'', JStr ''1px''),
     (''0'', JStr ''0''),
     (''2'', JStr ''2px''),
     (''3'', JStr ''3px''),
     (''4'', JStr ''4px''),
     (''6'', JStr ''6px''),
     (''7'', JStr ''7px''),
     (''8'', JStr ''8px'')]"

definition boxShadow :: "'f jsval" where
  "boxShadow = JObj [
     (''none'', JStr ''none''),
     (''1'', JStr ''0px 1px 1px rgba(0, 0, 0, 0.1)''),
     (''2'', JStr ''0px 3px 3px rgba(0, 0, 0, 0.1)''),
     (''3'', JStr ''0px 6px 6px rgba(0, 0, 0, 0.08)''),
     (''4'', JStr ''0px 16px 16px rgba(0, 0, 0, 0.1)''),
     (''5'', JStr ''0px 32px 40px rgba(0, 0, 0, 0.1)''),
     (''spextlg'', JStr ''0px 5px 20px 1px rgba(0, 2, 40, 0.1)''),
     (''searchbox'', JStr ''0px 4px 18x 0.5x rgba(0, 2, 40, 0.1)''),
     (''up2'', JStr ''0px -3px 3px rgba(0, 0, 0, 0.08)''),
     (''key'', JStr ''0px 4px 16px rgba(0, 2, 40, 0.35)''),
     (''lg'', JStr ''0px 5px 20px 1px #DBE0E9''),
     (''blur'', JStr ''0px 0px 6px rgba(0,0,0,0.1)''),
     (''minimal-up'', JStr ''0px -1px 5px rgba(0, 0, 0, 0.1)''),
     (''minimal-down'', JStr ''0px 1px 5px rgba(0, 0, 0, 0.1)'')]"

definition variants :: "'f jsval" where
  "variants = JObj [
     (''extend'', JObj [
        (''cursor'', JArr [JStr ''disabled'']),
        (''opacity'', JArr [JStr ''group-hover'']),
        (''backgroundColor'', JArr [JStr ''group-hover'']),
        (''background'', JArr [JStr ''group-hover'', JStr ''active'']),
        (''display'', JArr [JStr ''group-hover'']),
        (''border'', JArr [JStr ''group-hover'', JStr ''active'']),
        (''margin'', JArr [JStr ''group-hover'']),
        (''padding'', JArr [JStr ''group-hover'']),
        (''height'', JArr [JStr ''group-hover'']),
        (''width'', JArr [JStr ''group-hover'']),
        (''transform'', JArr [JStr ''group-hover'']),
        (''scale'', JArr [JStr ''group-hover'']),
        (''rotate'', JArr [JStr ''group-hover'']),
        (''translate'', JArr [JStr ''group-hover'']),
        (''skew'', JArr [JStr ''group-hover'']),
        (''transitionProperty'', JArr [JStr ''group-hover'']),
        (''transitionDuration'', JArr [JStr ''group-hover'']),
        (''transitionTimingFunction'', JArr [JStr ''group-hover'']),
        (''transitionDelay'', JArr [JStr ''group-hover''])])]"

section \<open>tailwind/safelist.js\<close>

definition safelist :: "'f jsval" where
  "safelist = JArr [
     JStr ''my-auto'',
     JStr ''text-others-doctormanhattan'',
     JStr ''text-others-superman'',
     JStr ''text-kilvish'',
     JStr ''text-red'',
     JStr ''group-hover:border-kilvish-600'',
     JStr ''group-hover:bg-others-superman100'',
     JStr ''group-hover:border-others-superman'',
     JStr ''group-hover:bg-kilvish-100'',
     JStr ''group-hover:border-kilvish'',
     JStr ''group-hover:bg-red-100'',
     JStr ''group-hover:border-red'',
     JStr ''group-hover:border-kilvish-600'',
     JStr ''group-hover:border-others-doctormanhattan'',
     JStr ''group-hover:bg-others-doctormanhattan-100'',
     JStr ''max-h-288'',
     JStr ''max-h-182'']"

section \<open>tailwind.config.js\<close>

text \<open>
  The plugin is \<open>function ({ addComponents }) { addComponents({...}) }\<close>. It is
  given the build tool's capability \<open>addComponents\<close> and returns nothing; all it does
  is what that capability does with the argument. The capability is a function from
  the component object to a change of the build tool's state.
\<close>

type_synonym ('c, 's) plugin = "('c jsval \<Rightarrow> 's \<Rightarrow> 's) \<Rightarrow> 's \<Rightarrow> 's"

definition container_components :: "'c jsval" where
  "container_components = JObj [
     (''.container'', JObj [
        (''maxWidth'', JStr ''100%''),
        (''paddingLeft'', JStr ''20px''),
        (''paddingRight'', JStr ''20px''),
        (''marginLeft'', JStr ''auto''),
        (''marginRight'', JStr ''auto''),
        (''@screen sm'', JObj [
           (''maxWidth'', JStr ''600px'')]),
        (''@screen md'', JObj [
           (''maxWidth'', JStr ''700px'')]),
        (''@screen lg'', JObj [
           (''maxWidth'', JStr ''1280px''),
           (''paddingLeft'', JStr ''56px''),
           (''paddingRight'', JStr ''56px'')]),
        (''@screen xl'', JObj [
           (''maxWidth'', JStr ''1344px'')])])]"

definition container_plugin :: "('c, 's) plugin" where
  "container_plugin addComponents = addComponents container_components"

text \<open>
  The exported record. The names it uses are the named exports of the four modules it
  requires. \<open>tailwind/colors.js\<close> and \<open>tailwind/spacing.js\<close> are not part of
  the sources at hand, so the four tables they export are parameters: any value, also
  \<open>undefined\<close>.
\<close>

definition module_exports ::
  "('c, 's) plugin jsval \<Rightarrow> ('c, 's) plugin jsval \<Rightarrow> ('c, 's) plugin jsval \<Rightarrow>
   ('c, 's) plugin jsval \<Rightarrow> ('c, 's) plugin jsval" where
  "module_exports colors spacing minWidth maxWidth = JObj [
     (''content'', JArr [JStr ''./src/**/*.{html,js,vue, ts}'']),
     (''options'', JObj [
        (''safelist'', safelist)]),
     (''enabled'', JBool True),
     (''theme'', JObj [
        (''fontFamily'', fontFamily),
        (''minWidth'', minWidth),
        (''maxWidth'', maxWidth),
        (''boxShadow'', boxShadow),
        (''extend'', JObj [
           (''fontSize'', fontSize),
           (''spacing'', spacing),
           (''borderRadius'', borderRadius),
           (''borderWidth'', borderWidth),
           (''colors'', colors)])]),
     (''variants'', variants),
     (''corePlugins'', JObj [
        (''container'', JBool False)]),
     (''plugins'', JArr [JFn container_plugin])]"

section \<open>Reading the record\<close>

text \<open>The elements of an array, in order.\<close>

fun elems :: "'f jsval \<Rightarrow> 'f jsval list" where
  "elems (JArr xs) = xs"
| "elems _ = []"

text \<open>Every property name that occurs in a value, at any depth.\<close>

fun all_keys :: "'f jsval \<Rightarrow> string list" where
  "all_keys (JObj kvs) = concat (map (\<lambda>(k, v). k # all_keys v) kvs)"
| "all_keys (JArr xs) = concat (map all_keys xs)"
| "all_keys _ = []"

text \<open>
  A capability that only records what it is given: the build tool's state is the list
  of the component objects registered so far.
\<close>

definition record_components :: "'c jsval \<Rightarrow> 'c jsval list \<Rightarrow> 'c jsval list" where
  "record_components c registered = registered @ [c]"

text \<open>
  How the build tool reads a rule with \<open>@screen\<close> blocks. \<open>@screen b\<close> stands
  for a media query \<open>(min-width: m)\<close>, where \<open>m\<close> is the width of the breakpoint
  \<open>b\<close>; the exported record sets no \<open>theme.screens\<close>, so the widths are the
  tool's own and are a parameter here (a list of names with their widths in pixels). At
  a viewport of width \<open>w\<close> the value of a property is that of the last declaration
  in force, in the order of the rule: a declaration of the rule itself is always in
  force, a declaration within \<open>@screen b\<close> is in force when \<open>m \<le> w\<close>.
\<close>

definition screen_of :: "string \<Rightarrow> string option" where
  "screen_of k = (if take 8 k = ''@screen '' then Some (drop 8 k) else None)"

fun cascade ::
  "(string \<times> nat) list \<Rightarrow> nat \<Rightarrow> string \<Rightarrow> (string \<times> 'f jsval) list \<Rightarrow>
   'f jsval option \<Rightarrow> 'f jsval option" where
  "cascade screens w p [] cur = cur"
| "cascade screens w p ((k, v) # kvs) cur =
     cascade screens w p kvs
       (if k = p then Some v
        else case screen_of k of
            None \<Rightarrow> cur
          | Some b \<Rightarrow>
              (case map_of screens b of
                 None \<Rightarrow> cur
               | Some m \<Rightarrow>
                   if m \<le> w
                   then (case get_step (Key p) v of None \<Rightarrow> cur | Some x \<Rightarrow> Some x)
                   else cur))"

fun effective :: "(string \<times> nat) list \<Rightarrow> nat \<Rightarrow> string \<Rightarrow> 'f jsval \<Rightarrow> 'f jsval option" where
  "effective screens w p (JObj kvs) = cascade screens w p kvs None"
| "effective screens w p _ = None"

section \<open>Properties\<close>

lemma get_path_append:
  "get_path (p @ q) v = (case get_path p v of None \<Rightarrow> None | Some w \<Rightarrow> get_path q w)"
  by (induction p arbitrary: v) (auto split: option.splits)

text \<open>
  No object literal of the sources repeats a key, so looking a key up in the list of
  entries finds the one value JavaScript keeps for it.
\<close>

lemma literal_keys_distinct:
  "distinct (keys_of fontFamily)"
  "distinct (keys_of fontSize)"
  "distinct (keys_of borderRadius)"
  "distinct (keys_of borderWidth)"
  "distinct (keys_of boxShadow)"
  "distinct (keys_of variants)"
  "distinct (keys_of (module_exports colors spacing minWidth maxWidth))"
  by (simp_all add: fontFamily_def fontSize_def borderRadius_def borderWidth_def
      boxShadow_def variants_def module_exports_def)

subsection \<open>The fields of the exported record\<close>

text \<open>
  C1, as stated, fails: \<open>fontFamily\<close> is one of the thirteen schema names and it is
  not a top-level field of the exported record (it is a field of \<open>theme\<close>).
\<close>

theorem schema_top_level_counterexample:
  "''fontFamily'' \<notin> set (keys_of
     (module_exports JUndefined JUndefined JUndefined JUndefined :: (unit, unit) plugin jsval))"
  by (simp add: module_exports_def)

text \<open>
  C1, amended. The exported record has exactly the top-level fields \<open>content\<close>,
  \<open>options\<close>, \<open>enabled\<close>, \<open>theme\<close>, \<open>variants\<close>, \<open>corePlugins\<close> and
  \<open>plugins\<close>. Of the thirteen schema names, \<open>variants\<close>, \<open>corePlugins\<close> and
  \<open>plugins\<close> are top-level fields; \<open>fontFamily\<close>, \<open>minWidth\<close>, \<open>maxWidth\<close>
  and \<open>boxShadow\<close> are fields of \<open>theme\<close>; \<open>fontSize\<close>, \<open>spacing\<close>,
  \<open>borderRadius\<close>, \<open>borderWidth\<close> and \<open>colors\<close> are fields of
  \<open>theme.extend\<close>; \<open>safelist\<close> is a field of \<open>options\<close>.
\<close>

theorem exported_record_fields:
  "keys_of (module_exports colors spacing minWidth maxWidth) =
     [''content'', ''options'', ''enabled'', ''theme'', ''variants'', ''corePlugins'', ''plugins'']
   \<and> map_option keys_of (get_path [Key ''theme''] (module_exports colors spacing minWidth maxWidth)) =
     Some [''fontFamily'', ''minWidth'', ''maxWidth'', ''boxShadow'', ''extend'']
   \<and> map_option keys_of
       (get_path [Key ''theme'', Key ''extend''] (module_exports colors spacing minWidth maxWidth)) =
     Some [''fontSize'', ''spacing'', ''borderRadius'', ''borderWidth'', ''colors'']
   \<and> map_option keys_of (get_path [Key ''options''] (module_exports colors spacing minWidth maxWidth)) =
     Some [''safelist'']"
  by (simp add: module_exports_def)

text \<open>
  C2, as stated, fails: no field of the record is named \<open>variantExtensions\<close>, at any
  depth (the tables of the two absent modules are taken empty here; every other name in
  the record comes from the sources at hand).
\<close>

theorem variantExtensions_counterexample:
  "''variantExtensions'' \<notin> set (all_keys
     (module_exports (JObj []) (JObj []) (JObj []) (JObj []) :: (unit, unit) plugin jsval))"
  by (simp add: module_exports_def fontFamily_def fontSize_def borderRadius_def
      borderWidth_def boxShadow_def variants_def safelist_def)

text \<open>
  C2, amended. The record holds \<open>theme.fontFamily\<close>, \<open>theme.extend.fontSize\<close>,
  \<open>theme.extend.borderRadius\<close>, \<open>theme.extend.borderWidth\<close>, \<open>theme.boxShadow\<close>,
  \<open>variants\<close> and \<open>options.safelist\<close>, each equal to its source table. It has no
  field \<open>variantExtensions\<close>: the variant extension rules are the \<open>extend\<close> field
  of \<open>variants\<close>. The nested extension bag is \<open>theme.extend\<close>, which holds
  \<open>fontSize\<close>, \<open>spacing\<close>, \<open>borderRadius\<close>, \<open>borderWidth\<close> and \<open>colors\<close>.
\<close>

theorem composed_fields_verbatim:
  "get_path [Key ''theme'', Key ''fontFamily''] (module_exports colors spacing minWidth maxWidth)
     = Some fontFamily
   \<and> get_path [Key ''theme'', Key ''extend'', Key ''fontSize'']
       (module_exports colors spacing minWidth maxWidth) = Some fontSize
   \<and> get_path [Key ''theme'', Key ''extend'', Key ''borderRadius'']
       (module_exports colors spacing minWidth maxWidth) = Some borderRadius
   \<and> get_path [Key ''theme'', Key ''extend'', Key ''borderWidth'']
       (module_exports colors spacing minWidth maxWidth) = Some borderWidth
   \<and> get_path [Key ''theme'', Key ''boxShadow''] (module_exports colors spacing minWidth maxWidth)
     = Some boxShadow
   \<and> get_path [Key ''variants''] (module_exports colors spacing minWidth maxWidth) = Some variants
   \<and> get_path [Key ''variants'', Key ''extend''] (module_exports colors spacing minWidth maxWidth)
     = get_path [Key ''extend''] variants
   \<and> get_path [Key ''variantExtensions''] (module_exports colors spacing minWidth maxWidth) = None
   \<and> get_path [Key ''options'', Key ''safelist''] (module_exports colors spacing minWidth maxWidth)
     = Some safelist
   \<and> get_path [Key ''theme'', Key ''extend''] (module_exports colors spacing minWidth maxWidth)
     = Some (JObj [(''fontSize'', fontSize), (''spacing'', spacing),
         (''borderRadius'', borderRadius), (''borderWidth'', borderWidth), (''colors'', colors)])"
  by (simp add: module_exports_def)

subsection \<open>The content glob\<close>

text \<open>
  C3. The content of the exported record is one glob, and it is
  \<open>./src/**/*.{html,js,vue, ts}\<close>: there is a space before \<open>ts\<close>, so it is not
  the string \<open>./src/**/*.{html,js,vue,ts}\<close>.
\<close>

theorem content_glob_has_space:
  "get_path [Key ''content''] (module_exports colors spacing minWidth maxWidth)
     = Some (JArr [JStr ''./src/**/*.{html,js,vue, ts}''])
   \<and> get_path [Key ''content'', Elem 0] (module_exports colors spacing minWidth maxWidth)
     \<noteq> Some (JStr ''./src/**/*.{html,js,vue,ts}'')"
  by (simp add: module_exports_def)

subsection \<open>The plugin callback\<close>

lemma screen_of_simps [simp]:
  "screen_of ''maxWidth'' = None"
  "screen_of ''paddingLeft'' = None"
  "screen_of ''paddingRight'' = None"
  "screen_of ''marginLeft'' = None"
  "screen_of ''marginRight'' = None"
  "screen_of ''@screen sm'' = Some ''sm''"
  "screen_of ''@screen md'' = Some ''md''"
  "screen_of ''@screen lg'' = Some ''lg''"
  "screen_of ''@screen xl'' = Some ''xl''"
  by (simp_all add: screen_of_def)

text \<open>
  The padding of the \<open>.container\<close> rule at a viewport of width \<open>w\<close>: only the
  rule itself and its \<open>lg\<close> override declare a padding, so whatever the widths of the
  other breakpoints, it is 56px from the width of \<open>lg\<close> on and 20px below.
\<close>

lemma container_padding_cascade:
  assumes "map_of screens ''lg'' = Some lg"
  shows "Option.bind (get_path [Key ''.container''] container_components)
           (effective screens w ''paddingLeft'')
         = Some (JStr (if lg \<le> w then ''56px'' else ''20px''))"
    and "Option.bind (get_path [Key ''.container''] container_components)
           (effective screens w ''paddingRight'')
         = Some (JStr (if lg \<le> w then ''56px'' else ''20px''))"
  using assms
  by (simp_all add: container_components_def split: option.splits)

text \<open>
  C4. The record registers one plugin callback. Whatever capability and state it is
  given, the callback applies the capability once, to an object whose only rule is
  \<open>.container\<close>. The rule has the four breakpoint overrides \<open>sm\<close>, \<open>md\<close>,
  \<open>lg\<close> and \<open>xl\<close>, in this order, whose \<open>maxWidth\<close> values are 600px, 700px,
  1280px and 1344px. \<open>paddingLeft\<close> and \<open>paddingRight\<close> are 20px at the base (in
  the rule itself, and in force at every width below \<open>lg\<close>) and 56px at each of the
  two largest breakpoints: the \<open>lg\<close> override declares 56px, the \<open>xl\<close> override
  declares no padding, and \<open>xl\<close> is at least as wide as \<open>lg\<close>, so 56px is in
  force from the width of \<open>lg\<close> on, hence from the width of \<open>xl\<close> on.
\<close>

theorem container_plugin_emits:
  assumes "map_of screens ''lg'' = Some lg" and "map_of screens ''xl'' = Some xl"
    and "lg \<le> xl"
  shows
  "get_path [Key ''plugins''] (module_exports colors spacing minWidth maxWidth)
     = Some (JArr [JFn container_plugin])
   \<and> container_plugin addComponents st = addComponents container_components st
   \<and> container_plugin record_components [] = [container_components]
   \<and> keys_of container_components = [''.container'']
   \<and> map_option keys_of (get_path [Key ''.container''] container_components)
     = Some [''maxWidth'', ''paddingLeft'', ''paddingRight'', ''marginLeft'', ''marginRight'',
         ''@screen sm'', ''@screen md'', ''@screen lg'', ''@screen xl'']
   \<and> get_path [Key ''.container'', Key ''@screen sm''] container_components
     = Some (JObj [(''maxWidth'', JStr ''600px'')])
   \<and> get_path [Key ''.container'', Key ''@screen md''] container_components
     = Some (JObj [(''maxWidth'', JStr ''700px'')])
   \<and> get_path [Key ''.container'', Key ''@screen lg''] container_components
     = Some (JObj [(''maxWidth'', JStr ''1280px''), (''paddingLeft'', JStr ''56px''),
         (''paddingRight'', JStr ''56px'')])
   \<and> get_path [Key ''.container'', Key ''@screen xl''] container_components
     = Some (JObj [(''maxWidth'', JStr ''1344px'')])
   \<and> get_path [Key ''.container'', Key ''paddingLeft''] container_components = Some (JStr ''20px'')
   \<and> get_path [Key ''.container'', Key ''paddingRight''] container_components = Some (JStr ''20px'')
   \<and> (w < lg \<longrightarrow>
        Option.bind (get_path [Key ''.container''] container_components)
          (effective screens w ''paddingLeft'') = Some (JStr ''20px'')
      \<and> Option.bind (get_path [Key ''.container''] container_components)
          (effective screens w ''paddingRight'') = Some (JStr ''20px''))
   \<and> (lg \<le> w \<longrightarrow>
        Option.bind (get_path [Key ''.container''] container_components)
          (effective screens w ''paddingLeft'') = Some (JStr ''56px'')
      \<and> Option.bind (get_path [Key ''.container''] container_components)
          (effective screens w ''paddingRight'') = Some (JStr ''56px''))
   \<and> (xl \<le> w \<longrightarrow>
        Option.bind (get_path [Key ''.container''] container_components)
          (effective screens w ''paddingLeft'') = Some (JStr ''56px'')
      \<and> Option.bind (get_path [Key ''.container''] container_components)
          (effective screens w ''paddingRight'') = Some (JStr ''56px''))"
proof -
  note pad = container_padding_cascade [OF assms(1), of w]
  have emitted:
    "get_path [Key ''plugins''] (module_exports colors spacing minWidth maxWidth)
       = Some (JArr [JFn container_plugin])"
    "container_plugin addComponents st = addComponents container_components st"
    "container_plugin record_components [] = [container_components]"
    by (simp_all add: module_exports_def container_plugin_def record_components_def)
  have shape:
    "keys_of container_components = [''.container'']"
    "map_option keys_of (get_path [Key ''.container''] container_components)
     = Some [''maxWidth'', ''paddingLeft'', ''paddingRight'', ''marginLeft'', ''marginRight'',
         ''@screen sm'', ''@screen md'', ''@screen lg'', ''@screen xl'']"
    "get_path [Key ''.container'', Key ''@screen sm''] container_components
     = Some (JObj [(''maxWidth'', JStr ''600px'')])"
    "get_path [Key ''.container'', Key ''@screen md''] container_components
     = Some (JObj [(''maxWidth'', JStr ''700px'')])"
    "get_path [Key ''.container'', Key ''@screen lg''] container_components
     = Some (JObj [(''maxWidth'', JStr ''1280px''), (''paddingLeft'', JStr ''56px''),
         (''paddingRight'', JStr ''56px'')])"
    "get_path [Key ''.container'', Key ''@screen xl''] container_components
     = Some (JObj [(''maxWidth'', JStr ''1344px'')])"
    "get_path [Key ''.container'', Key ''paddingLeft''] container_components = Some (JStr ''20px'')"
    "get_path [Key ''.container'', Key ''paddingRight''] container_components = Some (JStr ''20px'')"
    by (simp_all add: container_components_def)
  have base:
    "w < lg \<Longrightarrow> Option.bind (get_path [Key ''.container''] container_components)
          (effective screens w ''paddingLeft'') = Some (JStr ''20px'')"
    "w < lg \<Longrightarrow> Option.bind (get_path [Key ''.container''] container_components)
          (effective screens w ''paddingRight'') = Some (JStr ''20px'')"
    using pad by simp_all
  have at_lg:
    "lg \<le> w \<Longrightarrow> Option.bind (get_path [Key ''.container''] container_components)
          (effective screens w ''paddingLeft'') = Some (JStr ''56px'')"
    "lg \<le> w \<Longrightarrow> Option.bind (get_path [Key ''.container''] container_components)
          (effective screens w ''paddingRight'') = Some (JStr ''56px'')"
    using pad by simp_all
  have at_xl:
    "xl \<le> w \<Longrightarrow> Option.bind (get_path [Key ''.container''] container_components)
          (effective screens w ''paddingLeft'') = Some (JStr ''56px'')"
    "xl \<le> w \<Longrightarrow> Option.bind (get_path [Key ''.container''] container_components)
          (effective screens w ''paddingRight'') = Some (JStr ''56px'')"
    using at_lg le_trans [OF assms(3)] by blast+
  show ?thesis
    apply (intro conjI impI)
    apply (rule emitted shape | erule base at_lg at_xl)+
    done
qed

text \<open>
  An instance, with the breakpoints 640, 768, 1024 and 1280 pixels: the padding at a
  viewport of 1280 pixels (\<open>xl\<close>) and at one of 800 pixels (below \<open>lg\<close>).
\<close>

theorem container_plugin_emits_witness:
  "map_of [(''sm'', 640), (''md'', 768), (''lg'', 1024), (''xl'', 1280 :: nat)] ''lg'' = Some 1024
   \<and> map_of [(''sm'', 640), (''md'', 768), (''lg'', 1024), (''xl'', 1280 :: nat)] ''xl'' = Some 1280
   \<and> (1024 :: nat) \<le> 1280
   \<and> Option.bind (get_path [Key ''.container''] (container_components :: unit jsval))
        (effective [(''sm'', 640), (''md'', 768), (''lg'', 1024), (''xl'', 1280)] 1280 ''paddingLeft'')
      = Some (JStr ''56px'')
   \<and> Option.bind (get_path [Key ''.container''] (container_components :: unit jsval))
        (effective [(''sm'', 640), (''md'', 768), (''lg'', 1024), (''xl'', 1280)] 1280 ''paddingRight'')
      = Some (JStr ''56px'')
   \<and> Option.bind (get_path [Key ''.container''] (container_components :: unit jsval))
        (effective [(''sm'', 640), (''md'', 768), (''lg'', 1024), (''xl'', 1280)] 800 ''paddingLeft'')
      = Some (JStr ''20px'')"
proof -
  let ?screens = "[(''sm'', 640), (''md'', 768), (''lg'', 1024), (''xl'', 1280 :: nat)]"
  have h1: "map_of ?screens ''lg'' = Some 1024" by simp
  have h2: "map_of ?screens ''xl'' = Some 1280" by simp
  have h3: "(1024 :: nat) \<le> 1280" by simp
  note at_xl = container_plugin_emits [OF h1 h2 h3, where w = 1280
      and colors = "JUndefined :: (unit, unit jsval list) plugin jsval" and spacing = JUndefined
      and minWidth = JUndefined and maxWidth = JUndefined
      and addComponents = record_components and st = "[]"]
  note at_md = container_plugin_emits [OF h1 h2 h3, where w = 800
      and colors = "JUndefined :: (unit, unit jsval list) plugin jsval" and spacing = JUndefined
      and minWidth = JUndefined and maxWidth = JUndefined
      and addComponents = record_components and st = "[]"]
  have a: "Option.bind (get_path [Key ''.container''] (container_components :: unit jsval))
        (effective ?screens 1280 ''paddingLeft'') = Some (JStr ''56px'')"
    using at_xl by (simp add: container_components_def)
  have b: "Option.bind (get_path [Key ''.container''] (container_components :: unit jsval))
        (effective ?screens 1280 ''paddingRight'') = Some (JStr ''56px'')"
    using at_xl by (simp add: container_components_def)
  have c: "Option.bind (get_path [Key ''.container''] (container_components :: unit jsval))
        (effective ?screens 800 ''paddingLeft'') = Some (JStr ''20px'')"
    using at_md by (simp add: container_components_def)
  show ?thesis using h1 h2 h3 a b c by (intro conjI)
qed

subsection \<open>The safelist\<close>

text \<open>
  C5. The safelist of the exported record, \<open>options.safelist\<close>, is the source array
  itself, element for element and in the order of the source. Its elements are string
  literals, and every string literal of the source array is an element of it, unchanged.
\<close>

theorem safelist_preserved:
  fixes colors :: "('c, 's) plugin jsval"
  shows "get_path [Key ''options'', Key ''safelist'']
       (module_exports colors spacing minWidth maxWidth) = Some safelist
   \<and> (\<forall>v \<in> set (elems (safelist :: ('c, 's) plugin jsval)). \<exists>s. v = JStr s)
   \<and> (\<forall>s. JStr s \<in> set (elems (safelist :: ('c, 's) plugin jsval)) \<longrightarrow>
        (\<exists>out. get_path [Key ''options'', Key ''safelist'']
                 (module_exports colors spacing minWidth maxWidth) = Some out
               \<and> JStr s \<in> set (elems out)))"
proof -
  have "get_path [Key ''options'', Key ''safelist'']
          (module_exports colors spacing minWidth maxWidth) = Some safelist"
    by (simp add: module_exports_def)
  moreover have "\<forall>v \<in> set (elems (safelist :: ('c, 's) plugin jsval)). \<exists>s. v = JStr s"
    by (simp add: safelist_def)
  ultimately show ?thesis by simp
qed

text \<open>An instance: the literal \<open>max-h-288\<close> of the source array.\<close>

theorem safelist_preserved_witness:
  "JStr ''max-h-288'' \<in> set (elems (safelist :: (unit, unit) plugin jsval))
   \<and> (\<exists>out. get_path [Key ''options'', Key ''safelist'']
         (module_exports JUndefined JUndefined JUndefined JUndefined :: (unit, unit) plugin jsval)
           = Some out
       \<and> JStr ''max-h-288'' \<in> set (elems out))"
proof -
  have h: "JStr ''max-h-288'' \<in> set (elems (safelist :: (unit, unit) plugin jsval))"
    by (simp add: safelist_def)
  from safelist_preserved [of "JUndefined :: (unit, unit) plugin jsval" JUndefined JUndefined
      JUndefined, THEN conjunct2, THEN conjunct2, rule_format, OF h] h
  show ?thesis by (rule conjI [rotated])
qed

subsection \<open>Completeness\<close>

text \<open>
  C7. Every key of every input table is in the exported record, with its value: for
  each of the eleven tables (\<open>fontFamily\<close>, \<open>fontSize\<close>, \<open>borderRadius\<close>,
  \<open>borderWidth\<close>, \<open>boxShadow\<close>, \<open>variants\<close>, \<open>safelist\<close> from the sources,
  and \<open>spacing\<close>, \<open>minWidth\<close>, \<open>maxWidth\<close>, \<open>colors\<close>, whatever they are),
  a key (or, for the array, an index) that has the value \<open>v\<close> in the table has the
  value \<open>v\<close> at the place the record gives the table.
\<close>

theorem compose_complete:
  fixes colors :: "('c, 's) plugin jsval"
  assumes out: "out = module_exports colors spacing minWidth maxWidth"
  shows
  "(get_step k fontFamily = Some v \<longrightarrow>
      get_path [Key ''theme'', Key ''fontFamily'', k] out = Some v)
   \<and> (get_step k fontSize = Some v \<longrightarrow>
      get_path [Key ''theme'', Key ''extend'', Key ''fontSize'', k] out = Some v)
   \<and> (get_step k borderRadius = Some v \<longrightarrow>
      get_path [Key ''theme'', Key ''extend'', Key ''borderRadius'', k] out = Some v)
   \<and> (get_step k borderWidth = Some v \<longrightarrow>
      get_path [Key ''theme'', Key ''extend'', Key ''borderWidth'', k] out = Some v)
   \<and> (get_step k boxShadow = Some v \<longrightarrow>
      get_path [Key ''theme'', Key ''boxShadow'', k] out = Some v)
   \<and> (get_step k variants = Some v \<longrightarrow>
      get_path [Key ''variants'', k] out = Some v)
   \<and> (get_step k safelist = Some v \<longrightarrow>
      get_path [Key ''options'', Key ''safelist'', k] out = Some v)
   \<and> (get_step k spacing = Some v \<longrightarrow>
      get_path [Key ''theme'', Key ''extend'', Key ''spacing'', k] out = Some v)
   \<and> (get_step k minWidth = Some v \<longrightarrow>
      get_path [Key ''theme'', Key ''minWidth'', k] out = Some v)
   \<and> (get_step k maxWidth = Some v \<longrightarrow>
      get_path [Key ''theme'', Key ''maxWidth'', k] out = Some v)
   \<and> (get_step k colors = Some v \<longrightarrow>
      get_path [Key ''theme'', Key ''extend'', Key ''colors'', k] out = Some v)"
  by (simp add: out module_exports_def)

text \<open>
  An instance for each of the eleven tables, with one-entry tables for the two absent
  modules.
\<close>

theorem compose_complete_witness:
  "get_step (Key ''primary'') (fontFamily :: (unit, unit) plugin jsval)
     = Some (JStr ''Inter'')
   \<and> get_path [Key ''theme'', Key ''fontFamily'', Key ''primary'']
       (module_exports (JObj [(''red'', JStr ''#ff0000'')]) (JObj [(''4'', JStr ''4px'')])
          (JObj [(''0'', JStr ''0'')]) (JObj [(''full'', JStr ''100%'')])
        :: (unit, unit) plugin jsval)
     = Some (JStr ''Inter'')
   \<and> get_step (Key ''title'') (fontSize :: (unit, unit) plugin jsval)
     = Some (JArr [JStr ''20px'', JStr ''28px''])
   \<and> get_path [Key ''theme'', Key ''extend'', Key ''fontSize'', Key ''title'']
       (module_exports (JObj [(''red'', JStr ''#ff0000'')]) (JObj [(''4'', JStr ''4px'')])
          (JObj [(''0'', JStr ''0'')]) (JObj [(''full'', JStr ''100%'')])
        :: (unit, unit) plugin jsval)
     = Some (JArr [JStr ''20px'', JStr ''28px''])
   \<and> get_step (Key ''12'') (borderRadius :: (unit, unit) plugin jsval)
     = Some (JStr ''12px'')
   \<and> get_path [Key ''theme'', Key ''extend'', Key ''borderRadius'', Key ''12'']
       (module_exports (JObj [(''red'', JStr ''#ff0000'')]) (JObj [(''4'', JStr ''4px'')])
          (JObj [(''0'', JStr ''0'')]) (JObj [(''full'', JStr ''100%'')])
        :: (unit, unit) plugin jsval)
     = Some (JStr ''12px'')
   \<and> get_step (Key ''DEFAULT'') (borderWidth :: (unit, unit) plugin jsval)
     = Some (JStr ''1px'')
   \<and> get_path [Key ''theme'', Key ''extend'', Key ''borderWidth'', Key ''DEFAULT'']
       (module_exports (JObj [(''red'', JStr ''#ff0000'')]) (JObj [(''4'', JStr ''4px'')])
          (JObj [(''0'', JStr ''0'')]) (JObj [(''full'', JStr ''100%'')])
        :: (unit, unit) plugin jsval)
     = Some (JStr ''1px'')
   \<and> get_step (Key ''none'') (boxShadow :: (unit, unit) plugin jsval)
     = Some (JStr ''none'')
   \<and> get_path [Key ''theme'', Key ''boxShadow'', Key ''none'']
       (module_exports (JObj [(''red'', JStr ''#ff0000'')]) (JObj [(''4'', JStr ''4px'')])
          (JObj [(''0'', JStr ''0'')]) (JObj [(''full'', JStr ''100%'')])
        :: (unit, unit) plugin jsval)
     = Some (JStr ''none'')
   \<and> get_step (Key ''extend'') (variants :: (unit, unit) plugin jsval)
     = Some (JObj [
        (''cursor'', JArr [JStr ''disabled'']),
        (''opacity'', JArr [JStr ''group-hover'']),
        (''backgroundColor'', JArr [JStr ''group-hover'']),
        (''background'', JArr [JStr ''group-hover'', JStr ''active'']),
        (''display'', JArr [JStr ''group-hover'']),
        (''border'', JArr [JStr ''group-hover'', JStr ''active'']),
        (''margin'', JArr [JStr ''group-hover'']),
        (''padding'', JArr [JStr ''group-hover'']),
        (''height'', JArr [JStr ''group-hover'']),
        (''width'', JArr [JStr ''group-hover'']),
        (''transform'', JArr [JStr ''group-hover'']),
        (''scale'', JArr [JStr ''group-hover'']),
        (''rotate'', JArr [JStr ''group-hover'']),
        (''translate'', JArr [JStr ''group-hover'']),
        (''skew'', JArr [JStr ''group-hover'']),
        (''transitionProperty'', JArr [JStr ''group-hover'']),
        (''transitionDuration'', JArr [JStr ''group-hover'']),
        (''transitionTimingFunction'', JArr [JStr ''group-hover'']),
        (''transitionDelay'', JArr [JStr ''group-hover''])])
   \<and> get_path [Key ''variants'', Key ''extend'']
       (module_exports (JObj [(''red'', JStr ''#ff0000'')]) (JObj [(''4'', JStr ''4px'')])
          (JObj [(''0'', JStr ''0'')]) (JObj [(''full'', JStr ''100%'')])
        :: (unit, unit) plugin jsval)
     = Some (JObj [
        (''cursor'', JArr [JStr ''disabled'']),
        (''opacity'', JArr [JStr ''group-hover'']),
        (''backgroundColor'', JArr [JStr ''group-hover'']),
        (''background'', JArr [JStr ''group-hover'', JStr ''active'']),
        (''display'', JArr [JStr ''group-hover'']),
        (''border'', JArr [JStr ''group-hover'', JStr ''active'']),
        (''margin'', JArr [JStr ''group-hover'']),
        (''padding'', JArr [JStr ''group-hover'']),
        (''height'', JArr [JStr ''group-hover'']),
        (''width'', JArr [JStr ''group-hover'']),
        (''transform'', JArr [JStr ''group-hover'']),
        (''scale'', JArr [JStr ''group-hover'']),
        (''rotate'', JArr [JStr ''group-hover'']),
        (''translate'', JArr [JStr ''group-hover'']),
        (''skew'', JArr [JStr ''group-hover'']),
        (''transitionProperty'', JArr [JStr ''group-hover'']),
        (''transitionDuration'', JArr [JStr ''group-hover'']),
        (''transitionTimingFunction'', JArr [JStr ''group-hover'']),
        (''transitionDelay'', JArr [JStr ''group-hover''])])
   \<and> get_step (Elem 3) (safelist :: (unit, unit) plugin jsval)
     = Some (JStr ''text-kilvish'')
   \<and> get_path [Key ''options'', Key ''safelist'', Elem 3]
       (module_exports (JObj [(''red'', JStr ''#ff0000'')]) (JObj [(''4'', JStr ''4px'')])
          (JObj [(''0'', JStr ''0'')]) (JObj [(''full'', JStr ''100%'')])
        :: (unit, unit) plugin jsval)
     = Some (JStr ''text-kilvish'')
   \<and> get_step (Key ''4'') (JObj [(''4'', JStr ''4px'')] :: (unit, unit) plugin jsval)
     = Some (JStr ''4px'')
   \<and> get_path [Key ''theme'', Key ''extend'', Key ''spacing'', Key ''4'']
       (module_exports (JObj [(''red'', JStr ''#ff0000'')]) (JObj [(''4'', JStr ''4px'')])
          (JObj [(''0'', JStr ''0'')]) (JObj [(''full'', JStr ''100%'')])
        :: (unit, unit) plugin jsval)
     = Some (JStr ''4px'')
   \<and> get_step (Key ''0'') (JObj [(''0'', JStr ''0'')] :: (unit, unit) plugin jsval)
     = Some (JStr ''0'')
   \<and> get_path [Key ''theme'', Key ''minWidth'', Key ''0'']
       (module_exports (JObj [(''red'', JStr ''#ff0000'')]) (JObj [(''4'', JStr ''4px'')])
          (JObj [(''0'', JStr ''0'')]) (JObj [(''full'', JStr ''100%'')])
        :: (unit, unit) plugin jsval)
     = Some (JStr ''0'')
   \<and> get_step (Key ''full'') (JObj [(''full'', JStr ''100%'')] :: (unit, unit) plugin jsval)
     = Some (JStr ''100%'')
   \<and> get_path [Key ''theme'', Key ''maxWidth'', Key ''full'']
       (module_exports (JObj [(''red'', JStr ''#ff0000'')]) (JObj [(''4'', JStr ''4px'')])
          (JObj [(''0'', JStr ''0'')]) (JObj [(''full'', JStr ''100%'')])
        :: (unit, unit) plugin jsval)
     = Some (JStr ''100%'')
   \<and> get_step (Key ''red'') (JObj [(''red'', JStr ''#ff0000'')] :: (unit, unit) plugin jsval)
     = Some (JStr ''#ff0000'')
   \<and> get_path [Key ''theme'', Key ''extend'', Key ''colors'', Key ''red'']
       (module_exports (JObj [(''red'', JStr ''#ff0000'')]) (JObj [(''4'', JStr ''4px'')])
          (JObj [(''0'', JStr ''0'')]) (JObj [(''full'', JStr ''100%'')])
        :: (unit, unit) plugin jsval)
     = Some (JStr ''#ff0000'')"
proof -
  let ?c = "JObj [(''red'', JStr ''#ff0000'')] :: (unit, unit) plugin jsval"
  let ?s = "JObj [(''4'', JStr ''4px'')] :: (unit, unit) plugin jsval"
  let ?mn = "JObj [(''0'', JStr ''0'')] :: (unit, unit) plugin jsval"
  let ?mx = "JObj [(''full'', JStr ''100%'')] :: (unit, unit) plugin jsval"
  let ?ve = "JObj [
        (''cursor'', JArr [JStr ''disabled'']),
        (''opacity'', JArr [JStr ''group-hover'']),
        (''backgroundColor'', JArr [JStr ''group-hover'']),
        (''background'', JArr [JStr ''group-hover'', JStr ''active'']),
        (''display'', JArr [JStr ''group-hover'']),
        (''border'', JArr [JStr ''group-hover'', JStr ''active'']),
        (''margin'', JArr [JStr ''group-hover'']),
        (''padding'', JArr [JStr ''group-hover'']),
        (''height'', JArr [JStr ''group-hover'']),
        (''width'', JArr [JStr ''group-hover'']),
        (''transform'', JArr [JStr ''group-hover'']),
        (''scale'', JArr [JStr ''group-hover'']),
        (''rotate'', JArr [JStr ''group-hover'']),
        (''translate'', JArr [JStr ''group-hover'']),
        (''skew'', JArr [JStr ''group-hover'']),
        (''transitionProperty'', JArr [JStr ''group-hover'']),
        (''transitionDuration'', JArr [JStr ''group-hover'']),
        (''transitionTimingFunction'', JArr [JStr ''group-hover'']),
        (''transitionDelay'', JArr [JStr ''group-hover''])] :: (unit, unit) plugin jsval"
  let ?out = "module_exports ?c ?s ?mn ?mx"
  note inst = compose_complete [where colors = "?c" and spacing = "?s" and minWidth = "?mn"
      and maxWidth = "?mx", OF refl]
  have h0: "get_step (Key ''primary'') (fontFamily :: (unit, unit) plugin jsval) = Some (JStr ''Inter'')"
    by (simp add: fontFamily_def)
  have c0: "get_path [Key ''theme'', Key ''fontFamily'', Key ''primary''] ?out = Some (JStr ''Inter'')"
    using inst [of "Key ''primary''" "JStr ''Inter''"] h0 by simp
  have h1: "get_step (Key ''title'') (fontSize :: (unit, unit) plugin jsval) = Some (JArr [JStr ''20px'', JStr ''28px''])"
    by (simp add: fontSize_def)
  have c1: "get_path [Key ''theme'', Key ''extend'', Key ''fontSize'', Key ''title''] ?out = Some (JArr [JStr ''20px'', JStr ''28px''])"
    using inst [of "Key ''title''" "JArr [JStr ''20px'', JStr ''28px'']"] h1 by simp
  have h2: "get_step (Key ''12'') (borderRadius :: (unit, unit) plugin jsval) = Some (JStr ''12px'')"
    by (simp add: borderRadius_def)
  have c2: "get_path [Key ''theme'', Key ''extend'', Key ''borderRadius'', Key ''12''] ?out = Some (JStr ''12px'')"
    using inst [of "Key ''12''" "JStr ''12px''"] h2 by simp
  have h3: "get_step (Key ''DEFAULT'') (borderWidth :: (unit, unit) plugin jsval) = Some (JStr ''1px'')"
    by (simp add: borderWidth_def)
  have c3: "get_path [Key ''theme'', Key ''extend'', Key ''borderWidth'', Key ''DEFAULT''] ?out = Some (JStr ''1px'')"
    using inst [of "Key ''DEFAULT''" "JStr ''1px''"] h3 by simp
  have h4: "get_step (Key ''none'') (boxShadow :: (unit, unit) plugin jsval) = Some (JStr ''none'')"
    by (simp add: boxShadow_def)
  have c4: "get_path [Key ''theme'', Key ''boxShadow'', Key ''none''] ?out = Some (JStr ''none'')"
    using inst [of "Key ''none''" "JStr ''none''"] h4 by simp
  have h5: "get_step (Key ''extend'') (variants :: (unit, unit) plugin jsval) = Some (?ve)"
    by (simp add: variants_def)
  have c5: "get_path [Key ''variants'', Key ''extend''] ?out = Some (?ve)"
    using inst [of "Key ''extend''" "?ve"] h5 by simp
  have h6: "get_step (Elem 3) (safelist :: (unit, unit) plugin jsval) = Some (JStr ''text-kilvish'')"
    by (simp add: safelist_def)
  have c6: "get_path [Key ''options'', Key ''safelist'', Elem 3] ?out = Some (JStr ''text-kilvish'')"
    using inst [of "Elem 3" "JStr ''text-kilvish''"] h6 by simp
  have h7: "get_step (Key ''4'') ?s = Some (JStr ''4px'')"
    by (simp)
  have c7: "get_path [Key ''theme'', Key ''extend'', Key ''spacing'', Key ''4''] ?out = Some (JStr ''4px'')"
    using inst [of "Key ''4''" "JStr ''4px''"] h7 by simp
  have h8: "get_step (Key ''0'') ?mn = Some (JStr ''0'')"
    by (simp)
  have c8: "get_path [Key ''theme'', Key ''minWidth'', Key ''0''] ?out = Some (JStr ''0'')"
    using inst [of "Key ''0''" "JStr ''0''"] h8 by simp
  have h9: "get_step (Key ''full'') ?mx = Some (JStr ''100%'')"
    by (simp)
  have c9: "get_path [Key ''theme'', Key ''maxWidth'', Key ''full''] ?out = Some (JStr ''100%'')"
    using inst [of "Key ''full''" "JStr ''100%''"] h9 by simp
  have h10: "get_step (Key ''red'') ?c = Some (JStr ''#ff0000'')"
    by (simp)
  have c10: "get_path [Key ''theme'', Key ''extend'', Key ''colors'', Key ''red''] ?out = Some (JStr ''#ff0000'')"
    using inst [of "Key ''red''" "JStr ''#ff0000''"] h10 by simp
  show ?thesis
    using h0 c0 h1 c1 h2 c2 h3 c3 h4 c4 h5 c5 h6 c6 h7 c7 h8 c8 h9 c9 h10 c10
    by simp
qed

subsection \<open>Values are not transformed\<close>

text \<open>
  C8. The source table has \<open>fontSize.body = ["14px", "24px"]\<close>, and the
  \<open>fontSize.body\<close> of the exported record (its \<open>fontSize\<close> table is
  \<open>theme.extend.fontSize\<close>) is \<open>["14px", "24px"]\<close> exactly.
\<close>

theorem fontSize_body_scenario:
  fixes colors :: "('c, 's) plugin jsval"
  shows "get_path [Key ''body''] (fontSize :: ('c, 's) plugin jsval)
     = Some (JArr [JStr ''14px'', JStr ''24px''])
   \<and> get_path [Key ''theme'', Key ''extend'', Key ''fontSize'', Key ''body'']
       (module_exports colors spacing minWidth maxWidth)
     = Some (JArr [JStr ''14px'', JStr ''24px''])"
  by (simp add: module_exports_def fontSize_def)

text \<open>
  C9. The \<open>searchbox\<close> entry of the \<open>boxShadow\<close> table, with its unit suffixes
  \<open>18x\<close> and \<open>0.5x\<close>, is in the exported record as it is in the source (the
  record's \<open>boxShadow\<close> table is \<open>theme.boxShadow\<close>): the value is the source
  string, not the string with \<open>18px\<close> and \<open>0.5px\<close>.
\<close>

theorem boxShadow_searchbox_verbatim:
  fixes colors :: "('c, 's) plugin jsval"
  shows "get_path [Key ''searchbox''] (boxShadow :: ('c, 's) plugin jsval)
     = Some (JStr ''0px 4px 18x 0.5x rgba(0, 2, 40, 0.1)'')
   \<and> get_path [Key ''theme'', Key ''boxShadow'', Key ''searchbox'']
       (module_exports colors spacing minWidth maxWidth)
     = Some (JStr ''0px 4px 18x 0.5x rgba(0, 2, 40, 0.1)'')
   \<and> get_path [Key ''theme'', Key ''boxShadow'', Key ''searchbox'']
       (module_exports colors spacing minWidth maxWidth)
     \<noteq> Some (JStr ''0px 4px 18px 0.5px rgba(0, 2, 40, 0.1)'')"
  by (simp add: module_exports_def boxShadow_def)

subsection \<open>The built-in container plugin is switched off\<close>

text \<open>
  C10. For every choice of the imported tables, \<open>corePlugins.container\<close> of the
  exported record is \<open>false\<close>, and \<open>container\<close> is the only entry of
  \<open>corePlugins\<close>: the build tool's own container plugin is off. The record registers
  one plugin callback, and the callback does register a \<open>.container\<close> rule: whatever
  capability it is given, it applies it once, to the object whose only rule is
  \<open>.container\<close>.
\<close>

theorem corePlugins_container_false:
  "get_path [Key ''corePlugins'', Key ''container'']
     (module_exports colors spacing minWidth maxWidth) = Some (JBool False)
   \<and> get_path [Key ''corePlugins''] (module_exports colors spacing minWidth maxWidth)
     = Some (JObj [(''container'', JBool False)])
   \<and> get_path [Key ''plugins''] (module_exports colors spacing minWidth maxWidth)
     = Some (JArr [JFn container_plugin])
   \<and> container_plugin addComponents st = addComponents container_components st
   \<and> container_plugin record_components [] = [container_components]
   \<and> keys_of (container_components :: 'c jsval) = [''.container'']
   \<and> map_option keys_of (get_path [Key ''.container''] (container_components :: 'c jsval))
     = Some [''maxWidth'', ''paddingLeft'', ''paddingRight'', ''marginLeft'', ''marginRight'',
         ''@screen sm'', ''@screen md'', ''@screen lg'', ''@screen xl'']"
  by (simp add: module_exports_def container_plugin_def record_components_def
      container_components_def)

end
